theory Spec2Isabelle
  imports Main "HOL-Library.Word" "HOL-Library.Sublist"
begin

section \<open>Data of the scanner bot\<close>

text \<open>
  The embedding follows \<^verbatim>\<open>src/bot.py\<close> (class \<^verbatim>\<open>ScannerBot\<close>). A Python \<^verbatim>\<open>str\<close> is a
  list of Unicode code points, so that \<^verbatim>\<open>len\<close> and slicing count what Python counts;
  \<^verbatim>\<open>bytes\<close> is a list of 8-bit words. Chat ids are Python ints. A web socket connection
  object is named by a natural number. The handlers and utilities of the class are
  embedded; its start-up (\<^verbatim>\<open>run\<close>, \<^verbatim>\<open>_ensure_dirs\<close>, \<^verbatim>\<open>_restore_last_file\<close>) and the
  routing of a message to its handler (\<^verbatim>\<open>_register_handlers\<close>) are not.
\<close>

type_synonym codepoint = nat
type_synonym pystr = "codepoint list"
type_synonym bytes = "8 word list"
type_synonym chat = int
type_synonym conn = nat

definition ascii :: "string \<Rightarrow> pystr" where
  "ascii cs = map of_char cs"

text \<open>
  \<^verbatim>\<open>str.isspace\<close> for one code point, as \<^verbatim>\<open>str.strip()\<close> without arguments uses it:
  U+0009..U+000D, U+001C..U+0020, U+0085, U+00A0, U+1680, U+2000..U+200A, U+2028, U+2029,
  U+202F, U+205F, U+3000.
\<close>

definition isspace :: "codepoint \<Rightarrow> bool" where
  "isspace c = (c \<in> set [9, 10, 11, 12, 13, 28, 29, 30, 31, 32, 133, 160, 5760,
                           8192, 8193, 8194, 8195, 8196, 8197, 8198, 8199, 8200, 8201, 8202,
                           8232, 8233, 8239, 8287, 12288])"

definition strip :: "pystr \<Rightarrow> pystr" where
  "strip t = rev (dropWhile isspace (rev (dropWhile isspace t)))"

text \<open>The decimal rendering of a Python int, as an f-string gives it.\<close>

fun digits :: "nat \<Rightarrow> pystr" where
  "digits n = (if n < 10 then [48 + n] else digits (n div 10) @ [48 + n mod 10])"

declare digits.simps [simp del]

definition str_int :: "int \<Rightarrow> pystr" where
  "str_int i = (if i < 0 then 45 # digits (nat (- i)) else digits (nat i))"

text \<open>
  The class attributes of \<^verbatim>\<open>Config\<close> that the handlers read. \<^verbatim>\<open>TOKEN\<close>, \<^verbatim>\<open>WS_HOST\<close>,
  \<^verbatim>\<open>WS_PORT\<close> and \<^verbatim>\<open>TZ\<close> only configure the transports and the clock.
\<close>

definition TIMEOUT :: nat where
  "TIMEOUT = 15"

definition DIR_IMG :: pystr where
  "DIR_IMG = ascii ''scans/images''"

definition DIR_DES :: pystr where
  "DIR_DES = ascii ''scans/descriptions''"

text \<open>\<^verbatim>\<open>pathlib\<close>: \<^verbatim>\<open>dir / name\<close> and \<^verbatim>\<open>path.name\<close> (the final component).\<close>

definition joinpath :: "pystr \<Rightarrow> pystr \<Rightarrow> pystr" where
  "joinpath d n = d @ ascii ''/'' @ n"

definition path_name :: "pystr \<Rightarrow> pystr" where
  "path_name p = rev (takeWhile (\<lambda>c. c \<noteq> 47) (rev p))"

text \<open>
  The texts the bot sends are fixed templates; each constructor stands for one literal of
  the source, with the values the template interpolates:
  \<^item> \<open>Greeting\<close>: the reply of \<^verbatim>\<open>_cmd_start\<close>;
  \<^item> \<open>Waiting t\<close>: the note "waiting for the file (<= t s)" of \<^verbatim>\<open>_cmd_scan\<close>;
  \<^item> \<open>NotConnected\<close>: "the scanner is not connected";
  \<^item> \<open>PhotoMissing\<close>: "the photo did not arrive", sent on \<^verbatim>\<open>asyncio.TimeoutError\<close>;
  \<^item> \<open>NothingToDescribe\<close>: "no photographs to describe yet";
  \<^item> \<open>Updated name tail\<close>: "updated `name`:" followed by a newline and \<open>tail\<close>;
  \<^item> \<open>WriteFailed\<close>: "could not write the file", sent when the append or the read
    back raises;
  \<^item> \<open>UnknownCommand\<close>: the reply of \<^verbatim>\<open>_cmd_unknown\<close>;
  \<^item> \<open>ScannerConnected\<close>, \<open>ScannerDisconnected\<close>: the two notifications of
    \<^verbatim>\<open>_ws_handler\<close>.
\<close>

datatype msg =
    Greeting
  | Waiting nat
  | NotConnected
  | PhotoMissing
  | NothingToDescribe
  | Updated pystr pystr
  | WriteFailed
  | UnknownCommand
  | ScannerConnected
  | ScannerDisconnected

text \<open>
  What leaves the process, in order: replies and edits in a chat, a photo, a notification
  that was delivered, and the control message \<^verbatim>\<open>{"cmd":"scan"}\<close> written to a connection.
  A note (the message \<^verbatim>\<open>reply_text\<close> returns) is named by its position in the output.
\<close>

datatype out =
    ReplyText chat msg
  | EditText chat nat msg
  | DeleteNote chat nat
  | SendPhoto chat pystr bytes
  | SendMessage chat msg
  | WsSend conn

text \<open>A frame read from the web socket: \<^verbatim>\<open>bytes\<close> or \<^verbatim>\<open>str\<close>.\<close>

datatype frame = Binary bytes | Text pystr

text \<open>
  A \<^verbatim>\<open>_cmd_scan\<close> task suspended in \<^verbatim>\<open>asyncio.wait_for(self._img_q.get(), timeout)\<close>: the
  chat it serves, its note, and the timeout its timer was started with.
\<close>

record waiter =
  w_chat :: chat
  w_note :: nat
  w_timeout :: nat

text \<open>
  What happens to the process, one event at a time. The first four are updates that
  Telegram delivers, named after the handler \<^verbatim>\<open>_register_handlers\<close> routes them to,
  each with what the environment decides while that handler runs: whether the send to the
  device succeeds, and what the clock reads when the files are saved. \<open>ScanTimeout k\<close>
  is the moment the timer of the \<open>k\<close>-th task waiting on the image queue expires; how
  long that takes is not part of the model. The last three are the connect, one frame and
  the end of the receive loop of a web socket connection, with the outcome of the
  notifications sent then.
\<close>

datatype event =
    CmdStart chat
  | CmdScan chat bool int
  | ScanTimeout nat
  | PlainText chat pystr
  | CmdUnknown chat
  | WsConnect conn "chat \<Rightarrow> bool"
  | WsFrame conn frame int
  | WsClose conn "chat \<Rightarrow> bool"

text \<open>
  The fields of \<^verbatim>\<open>ScannerBot\<close> and what they stand on:
  \<^item> \<open>subs\<close>: the set \<^verbatim>\<open>self.subs\<close>, as the duplicate-free list of its iteration order;
  \<^item> \<open>ws\<close>: \<^verbatim>\<open>self._ws\<close>;
  \<^item> \<open>img_q\<close>: the items of the unbounded \<^verbatim>\<open>asyncio.Queue\<close> \<^verbatim>\<open>self._img_q\<close>;
  \<^item> \<open>getters\<close>: the tasks waiting in \<^verbatim>\<open>self._img_q.get()\<close>, the getters of the
    queue, oldest first;
  \<^item> \<open>last_file\<close>: \<^verbatim>\<open>self._last_file\<close>;
  \<^item> \<open>handlers\<close>: the connections whose \<^verbatim>\<open>_ws_handler\<close> coroutine is in its receive loop;
  \<^item> \<open>images\<close>, \<open>descs\<close>: the files of the image and of the description directory,
    by path;
  \<^item> \<open>outbox\<close>: everything sent so far;
  \<^item> \<open>update_q\<close>: the update queue of \<^verbatim>\<open>self.app\<close>, the updates that arrived and
    whose handler has not started yet, oldest first.
\<close>

record bot =
  subs :: "chat list"
  ws :: "conn option"
  img_q :: "bytes list"
  getters :: "waiter list"
  last_file :: "pystr option"
  handlers :: "conn list"
  images :: "pystr \<rightharpoonup> bytes"
  descs :: "pystr \<rightharpoonup> pystr"
  outbox :: "out list"
  update_q :: "event list"

definition bot_init :: bot where
  "bot_init = \<lparr>subs = [], ws = None, img_q = [], getters = [], last_file = None,
               handlers = [], images = Map.empty, descs = Map.empty, outbox = [],
               update_q = []\<rparr>"

section \<open>The file system\<close>

text \<open>
  A description file is taken to hold valid UTF-8 and is kept as the code points its
  bytes decode to; the platform writes a newline as it is (POSIX). The operating system is taken not to fail; what the
  library itself does is modelled:
  \<^item> \<^verbatim>\<open>Path.touch()\<close> creates an empty file when none exists and leaves the content
    of an existing one alone;
  \<^item> \<^verbatim>\<open>write_bytes\<close> replaces the content;
  \<^item> \<^verbatim>\<open>open("a", encoding="utf-8")\<close> creates the file when none exists, and
    \<^verbatim>\<open>f.write(t)\<close> appends \<open>t\<close> at its end, unless \<open>t\<close> holds a surrogate code point
    (U+D800..U+DFFF): UTF-8 cannot encode it, \<^verbatim>\<open>write\<close> raises \<^verbatim>\<open>UnicodeEncodeError\<close>
    and nothing is appended;
  \<^item> \<^verbatim>\<open>read_text(encoding="utf-8")\<close> raises when no file exists (\<open>None\<close>) and
    otherwise reads in text mode with universal newlines: every CR LF and every other CR
    of the file comes back as one LF.
\<close>

definition touch :: "pystr \<Rightarrow> (pystr \<rightharpoonup> pystr) \<Rightarrow> (pystr \<rightharpoonup> pystr)" where
  "touch p fs = (case fs p of None \<Rightarrow> fs(p \<mapsto> []) | Some old \<Rightarrow> fs)"

definition is_surrogate :: "codepoint \<Rightarrow> bool" where
  "is_surrogate c = (55296 \<le> c \<and> c \<le> 57343)"

definition utf8_encodable :: "pystr \<Rightarrow> bool" where
  "utf8_encodable t = (filter is_surrogate t = [])"

text \<open>The result of \<open>append_text\<close> tells whether the write returned, with the files after it.\<close>

definition append_text :: "pystr \<Rightarrow> pystr \<Rightarrow> (pystr \<rightharpoonup> pystr) \<Rightarrow> bool \<times> (pystr \<rightharpoonup> pystr)" where
  "append_text p t fs =
     (if utf8_encodable t
      then (True, (case fs p of None \<Rightarrow> fs(p \<mapsto> t) | Some old \<Rightarrow> fs(p \<mapsto> old @ t)))
      else (False, touch p fs))"

fun universal_newlines :: "pystr \<Rightarrow> pystr" where
  "universal_newlines [] = []"
| "universal_newlines [c] = [if c = 13 then 10 else c]"
| "universal_newlines (c # d # cs) =
     (if c = 13
      then (if d = 10 then 10 # universal_newlines cs else 10 # universal_newlines (d # cs))
      else c # universal_newlines (d # cs))"

definition read_text :: "pystr \<Rightarrow> (pystr \<rightharpoonup> pystr) \<Rightarrow> pystr option" where
  "read_text p fs = map_option universal_newlines (fs p)"

section \<open>Utilities of \<^verbatim>\<open>ScannerBot\<close>\<close>

text \<open>
  \<^verbatim>\<open>_subs_add\<close>: \<^verbatim>\<open>self.subs.add(cid)\<close>. The list \<open>subs\<close> enumerates the set. Where a
  Python set puts a new member in its iteration order depends on its hash table; the
  model puts it last. The members are the right ones (\<open>subs_add_members\<close>); the order in
  which one fan-out reaches them is not predicted, and no statement below depends on it.
\<close>

definition subs_add :: "chat \<Rightarrow> bot \<Rightarrow> bot" where
  "subs_add cid s = s\<lparr>subs := (if cid \<in> set (subs s) then subs s else subs s @ [cid])\<rparr>"

text \<open>
  \<^verbatim>\<open>_notify_all\<close>. The first loop sends to every subscriber; \<open>ok cid\<close> tells whether
  \<^verbatim>\<open>send_message(cid, txt)\<close> returns (otherwise it raises, and the bare \<^verbatim>\<open>except\<close>
  appends \<open>cid\<close> to \<^verbatim>\<open>dead\<close>). The second loop discards the dead.
\<close>

fun notify_loop :: "(chat \<Rightarrow> bool) \<Rightarrow> msg \<Rightarrow> chat list \<Rightarrow> out list \<times> chat list
    \<Rightarrow> out list \<times> chat list" where
  "notify_loop ok txt [] (sent, dead) = (sent, dead)"
| "notify_loop ok txt (cid # cids) (sent, dead) =
     (if ok cid then notify_loop ok txt cids (sent @ [SendMessage cid txt], dead)
      else notify_loop ok txt cids (sent, dead @ [cid]))"

fun discard_loop :: "chat list \<Rightarrow> chat list \<Rightarrow> chat list" where
  "discard_loop [] members = members"
| "discard_loop (cid # dead) members = discard_loop dead (removeAll cid members)"

definition notify_all :: "(chat \<Rightarrow> bool) \<Rightarrow> msg \<Rightarrow> bot \<Rightarrow> bot" where
  "notify_all ok txt s =
     (case notify_loop ok txt (subs s) ([], []) of
        (sent, dead) \<Rightarrow> s\<lparr>subs := discard_loop dead (subs s), outbox := outbox s @ sent\<rparr>)"

text \<open>
  \<^verbatim>\<open>_ws_send_scan\<close>: \<open>False\<close> when no connection is held, or when \<^verbatim>\<open>send\<close> raises
  (\<open>send_ok\<close> false); otherwise the control message is written and the result is \<open>True\<close>.
\<close>

definition ws_send_scan :: "bool \<Rightarrow> bot \<Rightarrow> bool \<times> bot" where
  "ws_send_scan send_ok s =
     (case ws s of
        None \<Rightarrow> (False, s)
      | Some c \<Rightarrow> if send_ok then (True, s\<lparr>outbox := outbox s @ [WsSend c]\<rparr>) else (False, s))"

text \<open>
  \<^verbatim>\<open>_save_files\<close>; \<open>ts\<close> is the value of
  \<^verbatim>\<open>int(datetime.now(self.cfg.TZ).timestamp() * 1000)\<close>, the clock in milliseconds.
\<close>

definition img_path_of :: "int \<Rightarrow> pystr" where
  "img_path_of ts = joinpath DIR_IMG (str_int ts @ ascii ''.png'')"

definition des_path_of :: "int \<Rightarrow> pystr" where
  "des_path_of ts = joinpath DIR_DES (str_int ts @ ascii ''.txt'')"

definition save_files :: "int \<Rightarrow> bytes \<Rightarrow> bot \<Rightarrow> (pystr \<times> pystr) \<times> bot" where
  "save_files ts img s =
     (let img_path = img_path_of ts;
          des_path = des_path_of ts
      in ((img_path, des_path),
          s\<lparr>images := (images s)(img_path \<mapsto> img),
            descs := touch des_path (descs s),
            last_file := Some des_path\<rparr>))"

section \<open>Telegram handlers\<close>

text \<open>
  A reply, an edit or a photo sent into a chat is taken to arrive; the sends whose failure
  the source itself turns into a result are \<^verbatim>\<open>send_message\<close> in \<^verbatim>\<open>_notify_all\<close> and
  \<^verbatim>\<open>send\<close> in \<^verbatim>\<open>_ws_send_scan\<close>, and those can fail here.
\<close>

definition reply_text :: "chat \<Rightarrow> msg \<Rightarrow> bot \<Rightarrow> bot" where
  "reply_text c m s = s\<lparr>outbox := outbox s @ [ReplyText c m]\<rparr>"

definition cmd_start :: "chat \<Rightarrow> bot \<Rightarrow> bot" where
  "cmd_start c s = reply_text c Greeting (subs_add c s)"

definition cmd_unknown :: "chat \<Rightarrow> bot \<Rightarrow> bot" where
  "cmd_unknown c s = reply_text c UnknownCommand s"

text \<open>
  \<^verbatim>\<open>_cmd_scan\<close> runs in three pieces. \<open>cmd_scan_got\<close> is what follows the
  \<^verbatim>\<open>await\<close> of the queue once it has returned \<open>img\<close>: the files are saved at clock
  \<open>ts\<close>, the photo is sent with the image's file name, the note is deleted.
  \<open>cmd_scan_timeout k\<close> is the \<^verbatim>\<open>asyncio.TimeoutError\<close> branch for the \<open>k\<close>-th task
  waiting on the queue: \<^verbatim>\<open>wait_for\<close> cancels its \<^verbatim>\<open>get()\<close>, which leaves the queue's
  list of getters, and the note is edited. \<open>cmd_scan\<close> is the handler from its start to
  the \<^verbatim>\<open>await\<close>: \<^verbatim>\<open>Queue.get()\<close> returns the oldest item at once when the queue
  holds one, and suspends the task otherwise.
\<close>

definition cmd_scan_got :: "int \<Rightarrow> waiter \<Rightarrow> bytes \<Rightarrow> bot \<Rightarrow> bot" where
  "cmd_scan_got ts w img s =
     (case save_files ts img s of
        ((img_path, des_path), s1) \<Rightarrow>
          s1\<lparr>outbox := outbox s1 @
                [SendPhoto (w_chat w) (path_name img_path) img, DeleteNote (w_chat w) (w_note w)]\<rparr>)"

definition cmd_scan_timeout :: "nat \<Rightarrow> bot \<Rightarrow> bot" where
  "cmd_scan_timeout k s =
     (if k < length (getters s)
      then s\<lparr>getters := take k (getters s) @ drop (Suc k) (getters s),
             outbox := outbox s @
               [EditText (w_chat (getters s ! k)) (w_note (getters s ! k)) PhotoMissing]\<rparr>
      else s)"

definition cmd_scan :: "chat \<Rightarrow> bool \<Rightarrow> int \<Rightarrow> bot \<Rightarrow> bot" where
  "cmd_scan c send_ok ts s =
     (let s1 = subs_add c s;
          note = length (outbox s1);
          s2 = reply_text c (Waiting TIMEOUT) s1
      in case ws_send_scan send_ok s2 of
           (False, s3) \<Rightarrow> s3\<lparr>outbox := outbox s3 @ [EditText c note NotConnected]\<rparr>
         | (True, s3) \<Rightarrow>
             (let w = \<lparr>w_chat = c, w_note = note, w_timeout = TIMEOUT\<rparr>
              in case img_q s3 of
                   [] \<Rightarrow> s3\<lparr>getters := getters s3 @ [w]\<rparr>
                 | img # rest \<Rightarrow> cmd_scan_got ts w img (s3\<lparr>img_q := rest\<rparr>)))"

text \<open>\<^verbatim>\<open>_plain_text\<close>, with \<^verbatim>\<open>full[-MAX:] if len(full) > MAX else full\<close> as \<open>echo_tail\<close>
  (\<open>MAX_chars\<close> is the local \<^verbatim>\<open>MAX\<close>).\<close>

definition MAX_chars :: nat where
  "MAX_chars = 4000"

definition echo_tail :: "pystr \<Rightarrow> pystr" where
  "echo_tail full =
     (if length full > MAX_chars then drop (length full - MAX_chars) full else full)"

definition plain_text :: "chat \<Rightarrow> pystr \<Rightarrow> bot \<Rightarrow> bot" where
  "plain_text c mtext s =
     (case last_file s of
        None \<Rightarrow> reply_text c NothingToDescribe s
      | Some p \<Rightarrow>
          (let text = strip mtext
           in if text = [] then s
              else (case append_text p (text @ [10]) (descs s) of
                      (False, fs) \<Rightarrow> reply_text c WriteFailed (s\<lparr>descs := fs\<rparr>)
                    | (True, fs) \<Rightarrow>
                        (let s1 = s\<lparr>descs := fs\<rparr>
                         in case read_text p (descs s1) of
                              None \<Rightarrow> reply_text c WriteFailed s1
                            | Some full \<Rightarrow>
                                reply_text c (Updated (path_name p) (echo_tail full)) s1))))"

section \<open>The web socket handler\<close>

text \<open>
  \<^verbatim>\<open>_ws_handler\<close> runs once for each connection: \<open>ws_handler_connect\<close> is its first
  line, \<open>ws_handler_msg\<close> one turn of its receive loop, \<open>ws_handler_finally\<close> its
  \<^verbatim>\<open>finally\<close> block. \<^verbatim>\<open>Queue.put\<close> appends the item and wakes the getter at the head
  of the queue's getters, which takes the oldest item and goes on in \<open>cmd_scan_got\<close>;
  \<open>ts\<close> is the clock when it does. No other \<^verbatim>\<open>_cmd_scan\<close> can reach the queue between
  the wake-up and the take, since no handler starts while one is suspended (see \<open>step\<close>
  below), and the queue never has more than one getter (\<open>at_most_one_getter\<close>).
\<close>

definition ws_handler_connect :: "conn \<Rightarrow> (chat \<Rightarrow> bool) \<Rightarrow> bot \<Rightarrow> bot" where
  "ws_handler_connect c ok s =
     notify_all ok ScannerConnected (s\<lparr>ws := Some c, handlers := handlers s @ [c]\<rparr>)"

definition img_q_put :: "bytes \<Rightarrow> int \<Rightarrow> bot \<Rightarrow> bot" where
  "img_q_put b ts s =
     (case getters s of
        [] \<Rightarrow> s\<lparr>img_q := img_q s @ [b]\<rparr>
      | w # waiting \<Rightarrow>
          (case img_q s @ [b] of
             [] \<Rightarrow> s
           | img # rest \<Rightarrow> cmd_scan_got ts w img (s\<lparr>img_q := rest, getters := waiting\<rparr>)))"

definition ws_handler_msg :: "frame \<Rightarrow> int \<Rightarrow> bot \<Rightarrow> bot" where
  "ws_handler_msg m ts s = (case m of Binary b \<Rightarrow> img_q_put b ts s | Text t \<Rightarrow> s)"

definition ws_handler_finally :: "conn \<Rightarrow> (chat \<Rightarrow> bool) \<Rightarrow> bot \<Rightarrow> bot" where
  "ws_handler_finally c ok s =
     notify_all ok ScannerDisconnected (s\<lparr>ws := None, handlers := removeAll c (handlers s)\<rparr>)"

section \<open>Runs\<close>

text \<open>
  \<^verbatim>\<open>self.app\<close> is built with the defaults of \<^verbatim>\<open>Application.builder()\<close>: it handles one
  update at a time. Its fetcher takes the oldest update from the update queue, runs the
  handler of that update and takes the next one only when the handler has returned. The
  one place where a handler of this bot stays suspended while other events happen is the
  wait on the image queue in \<^verbatim>\<open>_cmd_scan\<close>; so the fetcher goes on exactly when no task
  is among the getters. \<open>process_update\<close> runs the handler of one update;
  \<open>update_fetcher\<close> is the fetcher's loop over the queued updates, leaving in the queue
  what it cannot start yet.
\<close>

fun process_update :: "event \<Rightarrow> bot \<Rightarrow> bot" where
  "process_update (CmdStart c) s = cmd_start c s"
| "process_update (CmdScan c send_ok ts) s = cmd_scan c send_ok ts s"
| "process_update (PlainText c t) s = plain_text c t s"
| "process_update (CmdUnknown c) s = cmd_unknown c s"
| "process_update (ScanTimeout k) s = s"
| "process_update (WsConnect c ok) s = s"
| "process_update (WsFrame c m ts) s = s"
| "process_update (WsClose c ok) s = s"

fun update_fetcher :: "event list \<Rightarrow> bot \<Rightarrow> bot" where
  "update_fetcher [] s = s\<lparr>update_q := []\<rparr>"
| "update_fetcher (u # us) s =
     (if getters s = [] then update_fetcher us (process_update u s)
      else s\<lparr>update_q := u # us\<rparr>)"

text \<open>
  One event. An update joins the update queue and the fetcher starts what it can; when
  the suspended \<^verbatim>\<open>_cmd_scan\<close> ends, by a frame or by its timeout, the fetcher goes on
  with the updates that arrived meanwhile. A frame or a close is of a connection whose
  handler is running, and a connection object connects once.
\<close>

fun step :: "bot \<Rightarrow> event \<Rightarrow> bot" where
  "step s (CmdStart c) = update_fetcher (update_q s @ [CmdStart c]) s"
| "step s (CmdScan c send_ok ts) = update_fetcher (update_q s @ [CmdScan c send_ok ts]) s"
| "step s (PlainText c t) = update_fetcher (update_q s @ [PlainText c t]) s"
| "step s (CmdUnknown c) = update_fetcher (update_q s @ [CmdUnknown c]) s"
| "step s (ScanTimeout k) =
     update_fetcher (update_q (cmd_scan_timeout k s)) (cmd_scan_timeout k s)"
| "step s (WsConnect c ok) = (if c \<in> set (handlers s) then s else ws_handler_connect c ok s)"
| "step s (WsFrame c m ts) =
     (if c \<in> set (handlers s)
      then update_fetcher (update_q (ws_handler_msg m ts s)) (ws_handler_msg m ts s)
      else s)"
| "step s (WsClose c ok) = (if c \<in> set (handlers s) then ws_handler_finally c ok s else s)"

definition run :: "event list \<Rightarrow> bot" where
  "run es = foldl step bot_init es"

section \<open>Reading a state\<close>

text \<open>
  The text of a description file, empty when the file does not exist (which is what an
  append finds there), and a send oracle under which every notification is delivered.
\<close>

definition doc_text :: "bot \<Rightarrow> pystr \<Rightarrow> pystr" where
  "doc_text s p = (case descs s p of None \<Rightarrow> [] | Some old \<Rightarrow> old)"

definition all_ok :: "chat \<Rightarrow> bool" where
  "all_ok cid = True"

text \<open>
  A run in which the device connects, chat 7 asks for a scan, and the device answers
  with one byte when the clock reads 1000 ms: it leaves the image \<^verbatim>\<open>1000.png\<close>, the
  empty description \<^verbatim>\<open>1000.txt\<close>, and that description as the last file.
\<close>

definition one_scan :: "event list" where
  "one_scan = [WsConnect 1 all_ok, CmdScan 7 True 0, WsFrame 1 (Binary [1]) 1000]"

text \<open>A description of 5000 characters, longer than one echo.\<close>

definition long_text :: pystr where
  "long_text = replicate 5000 97"

definition long_doc :: bot where
  "long_doc = bot_init\<lparr>last_file := Some (des_path_of 1000),
                         descs := [des_path_of 1000 \<mapsto> long_text]\<rparr>"

section \<open>Auxiliary facts\<close>

lemma digits_nonempty: "digits n \<noteq> []"
  by (subst digits.simps) simp

lemma str_int_1000: "str_int 1000 = [49, 48, 48, 48]"
  by (simp add: str_int_def digits.simps)

lemma str_int_2000: "str_int 2000 = [50, 48, 48, 48]"
  by (simp add: str_int_def digits.simps)

lemma des_path_2000_other: "des_path_of 2000 \<noteq> des_path_of 1000"
  by (simp add: des_path_of_def joinpath_def str_int_1000 str_int_2000)

lemma strip_blank: "strip [32] = []"
  by (simp add: strip_def isspace_def)

lemma strip_a: "strip [97] = [97]"
  by (simp add: strip_def isspace_def)

lemma strip_b: "strip [98] = [98]"
  by (simp add: strip_def isspace_def)

lemma strip_blank_b: "strip [32, 98] = [98]"
  by (simp add: strip_def isspace_def)

lemma strip_a_cr_b: "strip [97, 13, 98] = [97, 13, 98]"
  by (simp add: strip_def isspace_def)

lemma strip_surrogate: "strip [55296] = [55296]"
  by (simp add: strip_def isspace_def)

subsection \<open>Text files\<close>

lemma universal_newlines_no_cr:
  "13 \<notin> set cs \<Longrightarrow> universal_newlines cs = cs"
  by (induction cs rule: universal_newlines.induct) auto

lemma utf8_encodable_append:
  "utf8_encodable (xs @ ys) \<longleftrightarrow> utf8_encodable xs \<and> utf8_encodable ys"
  by (simp add: utf8_encodable_def)

lemma utf8_encodable_newline: "utf8_encodable [10]"
  by (simp add: utf8_encodable_def is_surrogate_def)

lemma utf8_encodable_a: "utf8_encodable [97]"
  by (simp add: utf8_encodable_def is_surrogate_def)

lemma utf8_encodable_b: "utf8_encodable [98]"
  by (simp add: utf8_encodable_def is_surrogate_def)

lemma utf8_encodable_a_cr_b: "utf8_encodable [97, 13, 98]"
  by (simp add: utf8_encodable_def is_surrogate_def)

lemma not_utf8_encodable_surrogate: "\<not> utf8_encodable [55296]"
  by (simp add: utf8_encodable_def is_surrogate_def)

subsection \<open>The subscribers\<close>

lemma subs_add_members: "set (subs (subs_add cid s)) = insert cid (set (subs s))"
  by (auto simp add: subs_add_def)

lemma subs_add_distinct: "distinct (subs s) \<Longrightarrow> distinct (subs (subs_add cid s))"
  by (simp add: subs_add_def)

subsection \<open>The notification loops in closed form\<close>

lemma notify_loop_eq:
  "notify_loop ok txt xs (sent, dead) =
     (sent @ map (\<lambda>c. SendMessage c txt) (filter ok xs), dead @ filter (\<lambda>c. \<not> ok c) xs)"
  by (induction xs arbitrary: sent dead) simp_all

lemma discard_loop_eq: "discard_loop dead xs = filter (\<lambda>x. x \<notin> set dead) xs"
proof (induction dead arbitrary: xs)
  case Nil
  show ?case by simp
next
  case (Cons d dead)
  have "removeAll d xs = filter (\<lambda>x. x \<noteq> d) xs"
    by (induction xs) simp_all
  with Cons show ?case by (simp add: conj_commute)
qed

lemma notify_all_eq:
  "notify_all ok txt s =
     s\<lparr>subs := filter ok (subs s),
       outbox := outbox s @ map (\<lambda>c. SendMessage c txt) (filter ok (subs s))\<rparr>"
proof -
  have "filter (\<lambda>x. x \<notin> set (filter (\<lambda>c. \<not> ok c) xs)) xs = filter ok xs" for xs
    by (rule filter_cong) auto
  then show ?thesis
    by (simp add: notify_all_def notify_loop_eq discard_loop_eq)
qed

subsection \<open>Each handler as one update of the state\<close>

lemma cmd_scan_not_connected:
  assumes "ws s = None"
  shows "cmd_scan c send_ok ts s =
           s\<lparr>subs := (if c \<in> set (subs s) then subs s else subs s @ [c]),
             outbox := outbox s @
               [ReplyText c (Waiting TIMEOUT), EditText c (length (outbox s)) NotConnected]\<rparr>"
  using assms
  by (simp add: cmd_scan_def Let_def subs_add_def reply_text_def ws_send_scan_def)

lemma cmd_scan_waits:
  assumes "ws s = Some d" and "img_q s = []"
  shows "cmd_scan c True ts s =
           s\<lparr>subs := (if c \<in> set (subs s) then subs s else subs s @ [c]),
             outbox := outbox s @ [ReplyText c (Waiting TIMEOUT), WsSend d],
             getters := getters s @
               [\<lparr>w_chat = c, w_note = length (outbox s), w_timeout = TIMEOUT\<rparr>]\<rparr>"
  using assms
  by (simp add: cmd_scan_def Let_def subs_add_def reply_text_def ws_send_scan_def)



lemma put_buffers:
  assumes "getters s = []"
  shows "ws_handler_msg (Binary b) ts s = s\<lparr>img_q := img_q s @ [b]\<rparr>"
  using assms by (simp add: ws_handler_msg_def img_q_put_def)

lemma save_files_fresh:
  assumes "descs s (des_path_of ts) = None"
  shows "descs (snd (save_files ts img s)) (des_path_of ts) = Some []"
  using assms by (simp add: save_files_def Let_def touch_def)

lemma save_files_paths:
  "fst (save_files ts img s) = (img_path_of ts, des_path_of ts) \<and>
   images (snd (save_files ts img s)) (img_path_of ts) = Some img \<and>
   last_file (snd (save_files ts img s)) = Some (des_path_of ts)"
  by (simp add: save_files_def Let_def)

lemma plain_text_append:
  assumes "last_file s = Some p" and "strip t \<noteq> []" and "utf8_encodable (strip t)"
  shows "plain_text c t s =
           s\<lparr>descs := (descs s)(p \<mapsto> doc_text s p @ strip t @ [10]),
             outbox := outbox s @
               [ReplyText c (Updated (path_name p)
                  (echo_tail (universal_newlines (doc_text s p @ strip t @ [10]))))]\<rparr>"
  using assms
  by (simp add: plain_text_def Let_def append_text_def read_text_def reply_text_def doc_text_def
      utf8_encodable_append utf8_encodable_newline split: option.split)

lemma plain_text_not_encodable:
  assumes "last_file s = Some p" and "strip t \<noteq> []" and "\<not> utf8_encodable (strip t)"
  shows "plain_text c t s =
           s\<lparr>descs := touch p (descs s), outbox := outbox s @ [ReplyText c WriteFailed]\<rparr>"
  using assms
  by (simp add: plain_text_def Let_def append_text_def reply_text_def utf8_encodable_append)

lemma plain_text_blank:
  assumes "last_file s = Some p" and "strip t = []"
  shows "plain_text c t s = s"
  using assms by (simp add: plain_text_def)

lemma plain_text_no_file:
  assumes "last_file s = None"
  shows "plain_text c t s = s\<lparr>outbox := outbox s @ [ReplyText c NothingToDescribe]\<rparr>"
  using assms by (simp add: plain_text_def reply_text_def)

lemma echo_tail_length: "length (echo_tail full) \<le> 4000"
  by (simp add: echo_tail_def MAX_chars_def)

lemma echo_tail_suffix: "suffix (echo_tail full) full"
  by (simp add: echo_tail_def suffix_drop)

subsection \<open>A request that waits and times out\<close>


subsection \<open>One getter at most\<close>

lemma getters_cmd_scan:
  "getters (cmd_scan c send_ok ts s) = getters s \<or>
   getters (cmd_scan c send_ok ts s) =
     getters s @ [\<lparr>w_chat = c, w_note = length (outbox s), w_timeout = TIMEOUT\<rparr>]"
  by (simp add: cmd_scan_def Let_def subs_add_def reply_text_def ws_send_scan_def
      cmd_scan_got_def save_files_def split: option.split list.split)

lemma getters_plain_text: "getters (plain_text c t s) = getters s"
  by (simp add: plain_text_def Let_def reply_text_def split: option.split prod.split bool.split)

lemma getters_process_update:
  assumes "getters s = []"
  shows "length (getters (process_update u s)) \<le> 1"
proof (cases u)
  case (CmdScan c send_ok ts)
  with assms getters_cmd_scan [of c send_ok ts s] show ?thesis by auto
qed (simp_all add: assms getters_plain_text cmd_start_def cmd_unknown_def reply_text_def
      subs_add_def)

lemma getters_update_fetcher:
  "length (getters s) \<le> 1 \<Longrightarrow> length (getters (update_fetcher us s)) \<le> 1"
proof (induction us arbitrary: s)
  case Nil
  then show ?case by simp
next
  case (Cons u us)
  show ?case
  proof (cases "getters s = []")
    case True
    then have "length (getters (process_update u s)) \<le> 1"
      by (rule getters_process_update)
    then show ?thesis using True Cons.IH by simp
  next
    case False
    then show ?thesis using Cons.prems by simp
  qed
qed

lemma update_fetcher_busy:
  "getters s \<noteq> [] \<Longrightarrow> update_fetcher us s = s\<lparr>update_q := us\<rparr>"
  by (cases us) simp_all

lemma getters_cmd_scan_timeout:
  "length (getters (cmd_scan_timeout k s)) \<le> length (getters s)"
  by (simp add: cmd_scan_timeout_def)

lemma getters_ws_handler_msg:
  "length (getters (ws_handler_msg m ts s)) \<le> length (getters s)"
  by (simp add: ws_handler_msg_def img_q_put_def cmd_scan_got_def save_files_def Let_def
      split: frame.split list.split)

lemma getters_step:
  assumes "length (getters s) \<le> 1"
  shows "length (getters (step s e)) \<le> 1"
proof (cases e)
  case (CmdStart c)
  show ?thesis unfolding CmdStart step.simps using assms by (rule getters_update_fetcher)
next
  case (CmdScan c send_ok ts)
  show ?thesis unfolding CmdScan step.simps using assms by (rule getters_update_fetcher)
next
  case (PlainText c t)
  show ?thesis unfolding PlainText step.simps using assms by (rule getters_update_fetcher)
next
  case (CmdUnknown c)
  show ?thesis unfolding CmdUnknown step.simps using assms by (rule getters_update_fetcher)
next
  case (ScanTimeout k)
  have "length (getters (cmd_scan_timeout k s)) \<le> 1"
    using getters_cmd_scan_timeout [of k s] assms by (rule order_trans)
  then show ?thesis unfolding ScanTimeout step.simps by (rule getters_update_fetcher)
next
  case (WsFrame c m ts)
  have "length (getters (ws_handler_msg m ts s)) \<le> 1"
    using getters_ws_handler_msg [of m ts s] assms by (rule order_trans)
  then have "length (getters (update_fetcher (update_q (ws_handler_msg m ts s))
      (ws_handler_msg m ts s))) \<le> 1"
    by (rule getters_update_fetcher)
  then show ?thesis using assms by (simp add: WsFrame)
next
  case (WsConnect c ok)
  then show ?thesis using assms by (simp add: ws_handler_connect_def notify_all_eq)
next
  case (WsClose c ok)
  then show ?thesis using assms by (simp add: ws_handler_finally_def notify_all_eq)
qed

lemma run_snoc: "run (es @ [e]) = step (run es) e"
  by (simp add: run_def)

lemma at_most_one_getter: "length (getters (run es)) \<le> 1"
proof (induction es rule: rev_induct)
  case Nil
  show ?case by (simp add: run_def bot_init_def)
next
  case (snoc e es)
  show ?case unfolding run_snoc using snoc.IH by (rule getters_step)
qed

subsection \<open>Evaluating a run\<close>

lemmas run_defs =
  run_def bot_init_def all_ok_def one_scan_def ws_handler_connect_def ws_handler_msg_def
  ws_handler_finally_def img_q_put_def notify_all_eq cmd_start_def cmd_scan_def cmd_scan_got_def
  cmd_scan_timeout_def cmd_unknown_def subs_add_def reply_text_def ws_send_scan_def
  save_files_def plain_text_def append_text_def read_text_def touch_def TIMEOUT_def Let_def

lemma one_scan_state:
  "run one_scan =
     \<lparr>subs = [7], ws = Some 1, img_q = [], getters = [], last_file = Some (des_path_of 1000),
      handlers = [1], images = [img_path_of 1000 \<mapsto> [1]], descs = [des_path_of 1000 \<mapsto> []],
      outbox = [ReplyText 7 (Waiting 15), WsSend 1,
                SendPhoto 7 (path_name (img_path_of 1000)) [1], DeleteNote 7 0],
      update_q = []\<rparr>"
  by (simp add: run_defs)

lemma name_of_image_1000: "path_name (img_path_of 1000) = ascii ''1000.png''"
  by (simp add: path_name_def img_path_of_def joinpath_def DIR_IMG_def ascii_def str_int_1000)

section \<open>The claims\<close>

subsection \<open>C1: a frame that nobody asked for\<close>

text \<open>
  C1, as the code has it. A binary frame that arrives while no scan request is waiting
  changes nothing but the image queue: the last file, the stored images and descriptions,
  the subscribers and the output stay as they are, and the frame is appended to the queue,
  where it is kept. When the queue was empty and a device is connected, the next scan
  request whose command is sent takes exactly these bytes as its result at once: they are
  sent as the photo and stored as the image of a new pair.
\<close>

theorem C1_unrequested_frame_is_buffered:
  assumes "getters s = []"
  shows "ws_handler_msg (Binary b) ts s = s\<lparr>img_q := img_q s @ [b]\<rparr> \<and>
         (ws s = Some d \<and> img_q s = [] \<longrightarrow>
            outbox (cmd_scan c True ts' (ws_handler_msg (Binary b) ts s)) =
              outbox s @ [ReplyText c (Waiting TIMEOUT), WsSend d,
                          SendPhoto c (path_name (img_path_of ts')) b,
                          DeleteNote c (length (outbox s))] \<and>
            images (cmd_scan c True ts' (ws_handler_msg (Binary b) ts s)) (img_path_of ts')
              = Some b \<and>
            img_q (cmd_scan c True ts' (ws_handler_msg (Binary b) ts s)) = [])"
  using assms
  by (simp add: put_buffers)
     (simp add: cmd_scan_def Let_def subs_add_def reply_text_def ws_send_scan_def
        cmd_scan_got_def save_files_def)

theorem C1_unrequested_frame_is_buffered_witness:
  "getters (run [WsConnect 1 all_ok]) = [] \<and>
   ws (run [WsConnect 1 all_ok]) = Some 1 \<and>
   img_q (run [WsConnect 1 all_ok]) = [] \<and>
   img_q (ws_handler_msg (Binary [1, 2, 3]) 1000 (run [WsConnect 1 all_ok])) = [[1, 2, 3]] \<and>
   outbox (cmd_scan 7 True 2000
            (ws_handler_msg (Binary [1, 2, 3]) 1000 (run [WsConnect 1 all_ok]))) =
     [ReplyText 7 (Waiting 15), WsSend 1,
      SendPhoto 7 (path_name (img_path_of 2000)) [1, 2, 3], DeleteNote 7 0]"
  using C1_unrequested_frame_is_buffered
          [of "run [WsConnect 1 all_ok]" "[1, 2, 3]" 1000 1 7 2000]
  by (simp add: run_defs)

text \<open>
  The claim as the specification words it fails: the frame is not dropped. In this run
  the device connects, chat 7 asks for a scan and its request times out, so that no
  request is pending; then the device pushes three bytes, late. Nothing is saved at
  that moment, but the bytes stay in the queue, and the scan request that chat 8 makes
  afterwards is answered with them at once: they are its photo and the image of its pair.
\<close>

theorem C1_stale_frame_answers_later_scan:
  "getters (run [WsConnect 1 all_ok, CmdScan 7 True 0, ScanTimeout 0]) = [] \<and>
   img_q (run [WsConnect 1 all_ok, CmdScan 7 True 0, ScanTimeout 0,
               WsFrame 1 (Binary [1, 2, 3]) 1000]) = [[1, 2, 3]] \<and>
   last_file (run [WsConnect 1 all_ok, CmdScan 7 True 0, ScanTimeout 0,
                   WsFrame 1 (Binary [1, 2, 3]) 1000]) = None \<and>
   outbox (run [WsConnect 1 all_ok, CmdScan 7 True 0, ScanTimeout 0,
                WsFrame 1 (Binary [1, 2, 3]) 1000, CmdScan 8 True 2000]) =
     [ReplyText 7 (Waiting 15), WsSend 1, EditText 7 0 PhotoMissing,
      ReplyText 8 (Waiting 15), WsSend 1,
      SendPhoto 8 (path_name (img_path_of 2000)) [1, 2, 3], DeleteNote 8 3] \<and>
   images (run [WsConnect 1 all_ok, CmdScan 7 True 0, ScanTimeout 0,
                WsFrame 1 (Binary [1, 2, 3]) 1000, CmdScan 8 True 2000])
     (img_path_of 2000) = Some [1, 2, 3]"
  by (simp add: run_defs)

subsection \<open>C2: a request made while another one is pending\<close>

text \<open>
  C2, as the code has it. At every instant at most one scan request is pending, since the
  application handles one update at a time; \<^verbatim>\<open>_cmd_scan\<close> itself has no failure for a
  request that is already outstanding. A scan request that arrives while another one is
  pending does not fail and is not answered at that moment: nothing is sent, the pending
  request stays as it is, and the new request waits in the update queue behind it. When
  the pending request has ended, by its timeout or by its image (stated here with the
  device still connected and no other image in the queue), the one that waited is handled
  like any other: it is told to wait, the scan command is sent and it becomes the pending
  request.
\<close>

theorem C2_one_request_pending_others_wait:
  "length (getters (run es)) \<le> 1 \<and>
   (getters s \<noteq> [] \<longrightarrow>
      step s (CmdScan c send_ok ts) = s\<lparr>update_q := update_q s @ [CmdScan c send_ok ts]\<rparr>) \<and>
   (getters s = [w] \<and> update_q s = [CmdScan c True ts] \<and> ws s = Some d \<and> img_q s = [] \<longrightarrow>
      outbox (step s (ScanTimeout 0)) =
        outbox s @ [EditText (w_chat w) (w_note w) PhotoMissing,
                    ReplyText c (Waiting TIMEOUT), WsSend d] \<and>
      getters (step s (ScanTimeout 0)) =
        [\<lparr>w_chat = c, w_note = length (outbox s) + 1, w_timeout = TIMEOUT\<rparr>] \<and>
      update_q (step s (ScanTimeout 0)) = []) \<and>
   (getters s = [w] \<and> update_q s = [CmdScan c True ts] \<and> ws s = Some d \<and> img_q s = [] \<and>
    d' \<in> set (handlers s) \<longrightarrow>
      outbox (step s (WsFrame d' (Binary b) ts')) =
        outbox s @ [SendPhoto (w_chat w) (path_name (img_path_of ts')) b,
                    DeleteNote (w_chat w) (w_note w),
                    ReplyText c (Waiting TIMEOUT), WsSend d] \<and>
      getters (step s (WsFrame d' (Binary b) ts')) =
        [\<lparr>w_chat = c, w_note = length (outbox s) + 2, w_timeout = TIMEOUT\<rparr>] \<and>
      update_q (step s (WsFrame d' (Binary b) ts')) = [])"
proof (intro conjI impI)
  show "length (getters (run es)) \<le> 1"
    by (rule at_most_one_getter)
next
  assume "getters s \<noteq> []"
  then show "step s (CmdScan c send_ok ts) = s\<lparr>update_q := update_q s @ [CmdScan c send_ok ts]\<rparr>"
    by (simp add: update_fetcher_busy)
next
  assume a: "getters s = [w] \<and> update_q s = [CmdScan c True ts] \<and> ws s = Some d \<and> img_q s = []"
  then have t: "cmd_scan_timeout 0 s =
      s\<lparr>getters := [], outbox := outbox s @ [EditText (w_chat w) (w_note w) PhotoMissing]\<rparr>"
    by (simp add: cmd_scan_timeout_def)
  have "ws (cmd_scan_timeout 0 s) = Some d" and "img_q (cmd_scan_timeout 0 s) = []"
    using a by (simp_all add: t)
  then have c: "cmd_scan c True ts (cmd_scan_timeout 0 s) =
      (cmd_scan_timeout 0 s)
        \<lparr>subs := (if c \<in> set (subs (cmd_scan_timeout 0 s)) then subs (cmd_scan_timeout 0 s)
                  else subs (cmd_scan_timeout 0 s) @ [c]),
         outbox := outbox (cmd_scan_timeout 0 s) @ [ReplyText c (Waiting TIMEOUT), WsSend d],
         getters := getters (cmd_scan_timeout 0 s) @
           [\<lparr>w_chat = c, w_note = length (outbox (cmd_scan_timeout 0 s)),
             w_timeout = TIMEOUT\<rparr>]\<rparr>"
    by (rule cmd_scan_waits)
  have q: "update_q (cmd_scan_timeout 0 s) = [CmdScan c True ts]"
    and g: "getters (cmd_scan_timeout 0 s) = []"
    using a by (simp_all add: t)
  have f: "step s (ScanTimeout 0) = (cmd_scan c True ts (cmd_scan_timeout 0 s))\<lparr>update_q := []\<rparr>"
    by (simp add: q g)
  show "outbox (step s (ScanTimeout 0)) =
        outbox s @ [EditText (w_chat w) (w_note w) PhotoMissing,
                    ReplyText c (Waiting TIMEOUT), WsSend d]"
    unfolding f c by (simp add: t)
  show "getters (step s (ScanTimeout 0)) =
        [\<lparr>w_chat = c, w_note = length (outbox s) + 1, w_timeout = TIMEOUT\<rparr>]"
    unfolding f c by (simp add: t)
  show "update_q (step s (ScanTimeout 0)) = []"
    unfolding f by simp
next
  assume a: "getters s = [w] \<and> update_q s = [CmdScan c True ts] \<and> ws s = Some d \<and>
             img_q s = [] \<and> d' \<in> set (handlers s)"
  then have m: "ws_handler_msg (Binary b) ts' s =
      s\<lparr>img_q := [], getters := [],
        images := (images s)(img_path_of ts' \<mapsto> b),
        descs := touch (des_path_of ts') (descs s),
        last_file := Some (des_path_of ts'),
        outbox := outbox s @ [SendPhoto (w_chat w) (path_name (img_path_of ts')) b,
                              DeleteNote (w_chat w) (w_note w)]\<rparr>"
    by (simp add: ws_handler_msg_def img_q_put_def cmd_scan_got_def save_files_def Let_def)
  have "ws (ws_handler_msg (Binary b) ts' s) = Some d"
    and "img_q (ws_handler_msg (Binary b) ts' s) = []"
    using a by (simp_all add: m)
  then have c: "cmd_scan c True ts (ws_handler_msg (Binary b) ts' s) =
      (ws_handler_msg (Binary b) ts' s)
        \<lparr>subs := (if c \<in> set (subs (ws_handler_msg (Binary b) ts' s))
                  then subs (ws_handler_msg (Binary b) ts' s)
                  else subs (ws_handler_msg (Binary b) ts' s) @ [c]),
         outbox := outbox (ws_handler_msg (Binary b) ts' s) @
           [ReplyText c (Waiting TIMEOUT), WsSend d],
         getters := getters (ws_handler_msg (Binary b) ts' s) @
           [\<lparr>w_chat = c, w_note = length (outbox (ws_handler_msg (Binary b) ts' s)),
             w_timeout = TIMEOUT\<rparr>]\<rparr>"
    by (rule cmd_scan_waits)
  have q: "update_q (ws_handler_msg (Binary b) ts' s) = [CmdScan c True ts]"
    and g: "getters (ws_handler_msg (Binary b) ts' s) = []"
    using a by (simp_all add: m)
  have f: "step s (WsFrame d' (Binary b) ts') =
      (cmd_scan c True ts (ws_handler_msg (Binary b) ts' s))\<lparr>update_q := []\<rparr>"
    using a by (simp add: q g)
  show "outbox (step s (WsFrame d' (Binary b) ts')) =
        outbox s @ [SendPhoto (w_chat w) (path_name (img_path_of ts')) b,
                    DeleteNote (w_chat w) (w_note w),
                    ReplyText c (Waiting TIMEOUT), WsSend d]"
    unfolding f c by (simp add: m)
  show "getters (step s (WsFrame d' (Binary b) ts')) =
        [\<lparr>w_chat = c, w_note = length (outbox s) + 2, w_timeout = TIMEOUT\<rparr>]"
    unfolding f c by (simp add: m)
  show "update_q (step s (WsFrame d' (Binary b) ts')) = []"
    unfolding f by simp
qed

theorem C2_one_request_pending_others_wait_witness:
  "getters (run [WsConnect 1 all_ok, CmdScan 7 True 0]) = [\<lparr>w_chat = 7, w_note = 0, w_timeout = 15\<rparr>] \<and>
   step (run [WsConnect 1 all_ok, CmdScan 7 True 0]) (CmdScan 8 True 0) =
     (run [WsConnect 1 all_ok, CmdScan 7 True 0])\<lparr>update_q := [CmdScan 8 True 0]\<rparr> \<and>
   update_q (run [WsConnect 1 all_ok, CmdScan 7 True 0, CmdScan 8 True 0]) = [CmdScan 8 True 0] \<and>
   ws (run [WsConnect 1 all_ok, CmdScan 7 True 0, CmdScan 8 True 0]) = Some 1 \<and>
   img_q (run [WsConnect 1 all_ok, CmdScan 7 True 0, CmdScan 8 True 0]) = [] \<and>
   getters (step (run [WsConnect 1 all_ok, CmdScan 7 True 0, CmdScan 8 True 0]) (ScanTimeout 0)) =
     [\<lparr>w_chat = 8, w_note = 3, w_timeout = 15\<rparr>] \<and>
   1 \<in> set (handlers (run [WsConnect 1 all_ok, CmdScan 7 True 0, CmdScan 8 True 0])) \<and>
   getters (step (run [WsConnect 1 all_ok, CmdScan 7 True 0, CmdScan 8 True 0])
                 (WsFrame 1 (Binary [1]) 1000)) =
     [\<lparr>w_chat = 8, w_note = 4, w_timeout = 15\<rparr>] \<and>
   length (getters (run [WsConnect 1 all_ok, CmdScan 7 True 0, CmdScan 8 True 0])) \<le> 1"
  using C2_one_request_pending_others_wait
          [of "[WsConnect 1 all_ok, CmdScan 7 True 0, CmdScan 8 True 0]"
              "run [WsConnect 1 all_ok, CmdScan 7 True 0]" 8 True 0]
        C2_one_request_pending_others_wait
          [of "[]" "run [WsConnect 1 all_ok, CmdScan 7 True 0, CmdScan 8 True 0]" 8 True 0
              "\<lparr>w_chat = 7, w_note = 0, w_timeout = 15\<rparr>" 1 1 "[1]" 1000]
  by (simp add: run_defs)

text \<open>
  The claim as the specification words it fails in its second half: a request made
  while another is outstanding does not fail at once, it waits behind it. Chat 7 asks
  for a scan and its request is pending; chat 8 asks for one. Nothing is sent to chat 8
  and its request is in the update queue, while the request of chat 7 is still the
  pending one. When that one times out, chat 8 is told to wait and the device gets the
  scan command again.
\<close>

theorem C2_second_request_waits_behind_first:
  "getters (run [WsConnect 1 all_ok, CmdScan 7 True 0, CmdScan 8 True 0]) =
     [\<lparr>w_chat = 7, w_note = 0, w_timeout = 15\<rparr>] \<and>
   outbox (run [WsConnect 1 all_ok, CmdScan 7 True 0, CmdScan 8 True 0]) =
     [ReplyText 7 (Waiting 15), WsSend 1] \<and>
   update_q (run [WsConnect 1 all_ok, CmdScan 7 True 0, CmdScan 8 True 0]) =
     [CmdScan 8 True 0] \<and>
   outbox (run [WsConnect 1 all_ok, CmdScan 7 True 0, CmdScan 8 True 0, ScanTimeout 0]) =
     [ReplyText 7 (Waiting 15), WsSend 1, EditText 7 0 PhotoMissing,
      ReplyText 8 (Waiting 15), WsSend 1] \<and>
   getters (run [WsConnect 1 all_ok, CmdScan 7 True 0, CmdScan 8 True 0, ScanTimeout 0]) =
     [\<lparr>w_chat = 8, w_note = 3, w_timeout = 15\<rparr>]"
  by (simp add: run_defs)

subsection \<open>C3: appending to the last description\<close>

text \<open>
  C3, as the code has it. The text of a message is stripped of leading and trailing
  white space before anything else. When a last file is set, the stripped text is not
  empty and UTF-8 can encode it, the file afterwards holds what it held, then the stripped
  text, then one newline (nothing of the old content is lost), and no other description
  and no image changes; reading the file back right after the append gives that content
  with every CR LF and every other CR read as LF, so it gives exactly the old content,
  the stripped text and one newline when neither holds a CR. When UTF-8 cannot encode the
  stripped text (it holds a surrogate), nothing is appended and the user is told that the
  file could not be written. When the stripped text is empty, nothing is written and
  nothing is sent. When no last file is set, the user is told that there is nothing to
  describe, and no file is written.
\<close>

theorem C3_append_then_read_back:
  "(last_file s = Some p \<and> strip t \<noteq> [] \<and> utf8_encodable (strip t) \<longrightarrow>
      descs (plain_text c t s) p = Some (doc_text s p @ strip t @ [10]) \<and>
      read_text p (descs (plain_text c t s)) =
        Some (universal_newlines (doc_text s p @ strip t @ [10])) \<and>
      (13 \<notin> set (doc_text s p) \<and> 13 \<notin> set (strip t) \<longrightarrow>
         read_text p (descs (plain_text c t s)) = Some (doc_text s p @ strip t @ [10])) \<and>
      (\<forall>q. q \<noteq> p \<longrightarrow> descs (plain_text c t s) q = descs s q) \<and>
      images (plain_text c t s) = images s) \<and>
   (last_file s = Some p \<and> strip t \<noteq> [] \<and> \<not> utf8_encodable (strip t) \<longrightarrow>
      plain_text c t s =
        s\<lparr>descs := touch p (descs s), outbox := outbox s @ [ReplyText c WriteFailed]\<rparr>) \<and>
   (last_file s = Some p \<and> strip t = [] \<longrightarrow> plain_text c t s = s) \<and>
   (last_file s = None \<longrightarrow>
      plain_text c t s = s\<lparr>outbox := outbox s @ [ReplyText c NothingToDescribe]\<rparr>)"
proof -
  have "universal_newlines (doc_text s p @ strip t @ [10]) = doc_text s p @ strip t @ [10]"
    if "13 \<notin> set (doc_text s p)" and "13 \<notin> set (strip t)"
    using that by (simp add: universal_newlines_no_cr)
  then show ?thesis
    by (simp add: plain_text_append plain_text_not_encodable plain_text_blank
        plain_text_no_file read_text_def)
qed

theorem C3_append_then_read_back_witness:
  "last_file (run (one_scan @ [PlainText 7 [97]])) = Some (des_path_of 1000) \<and>
   doc_text (run (one_scan @ [PlainText 7 [97]])) (des_path_of 1000) = [97, 10] \<and>
   strip [32, 98] = [98] \<and> utf8_encodable [98] \<and>
   read_text (des_path_of 1000)
     (descs (plain_text 7 [32, 98] (run (one_scan @ [PlainText 7 [97]])))) =
     Some [97, 10, 98, 10] \<and>
   des_path_of 2000 \<noteq> des_path_of 1000 \<and>
   descs (plain_text 7 [32, 98] (run (one_scan @ [PlainText 7 [97]]))) (des_path_of 2000) = None \<and>
   strip [55296] = [55296] \<and> \<not> utf8_encodable [55296] \<and>
   descs (plain_text 7 [55296] (run (one_scan @ [PlainText 7 [97]]))) (des_path_of 1000) =
     Some [97, 10] \<and>
   strip [32] = [] \<and>
   plain_text 7 [32] (run (one_scan @ [PlainText 7 [97]])) = run (one_scan @ [PlainText 7 [97]]) \<and>
   last_file bot_init = None \<and>
   plain_text 7 [98] bot_init = bot_init\<lparr>outbox := [ReplyText 7 NothingToDescribe]\<rparr>"
  using C3_append_then_read_back
          [of "run (one_scan @ [PlainText 7 [97]])" "des_path_of 1000" "[32, 98]" 7]
        C3_append_then_read_back
          [of "run (one_scan @ [PlainText 7 [97]])" "des_path_of 1000" "[55296]" 7]
        C3_append_then_read_back
          [of "run (one_scan @ [PlainText 7 [97]])" "des_path_of 1000" "[32]" 7]
        C3_append_then_read_back [of bot_init "des_path_of 1000" "[98]" 7]
  by (simp add: run_defs doc_text_def strip_a strip_blank strip_blank_b strip_surrogate
      des_path_2000_other utf8_encodable_def is_surrogate_def)

text \<open>
  The claim as the specification words it fails on four texts. After one scan and the
  message "a" the description holds "a" and a newline. The message " " (one space) then
  leaves it as it is: no space and no second newline are appended. The message " b"
  appends "b" and a newline, without the space. The message "a", CR, "b" is appended as
  it is, but reading the file back gives a newline where the CR is. The message made of
  the surrogate U+D800 appends nothing and is answered with "could not write the file",
  although a last file is set.
\<close>

theorem C3_text_is_stripped_before_append:
  "last_file (run (one_scan @ [PlainText 7 [97]])) = Some (des_path_of 1000) \<and>
   descs (run (one_scan @ [PlainText 7 [97]])) (des_path_of 1000) = Some [97, 10] \<and>
   descs (run (one_scan @ [PlainText 7 [97], PlainText 7 [32]])) (des_path_of 1000)
     = Some [97, 10] \<and>
   descs (run (one_scan @ [PlainText 7 [97], PlainText 7 [32]])) (des_path_of 1000)
     \<noteq> Some ([97, 10] @ [32] @ [10]) \<and>
   descs (run (one_scan @ [PlainText 7 [97], PlainText 7 [32, 98]])) (des_path_of 1000)
     = Some [97, 10, 98, 10] \<and>
   descs (run (one_scan @ [PlainText 7 [97], PlainText 7 [32, 98]])) (des_path_of 1000)
     \<noteq> Some ([97, 10] @ [32, 98] @ [10]) \<and>
   read_text (des_path_of 1000)
     (descs (run (one_scan @ [PlainText 7 [97], PlainText 7 [97, 13, 98]])))
     = Some [97, 10, 97, 10, 98, 10] \<and>
   read_text (des_path_of 1000)
     (descs (run (one_scan @ [PlainText 7 [97], PlainText 7 [97, 13, 98]])))
     \<noteq> Some ([97, 10] @ [97, 13, 98] @ [10]) \<and>
   descs (run (one_scan @ [PlainText 7 [97], PlainText 7 [55296]])) (des_path_of 1000)
     = Some [97, 10] \<and>
   last (outbox (run (one_scan @ [PlainText 7 [97], PlainText 7 [55296]])))
     = ReplyText 7 WriteFailed"
  by (simp add: run_defs strip_a strip_blank strip_blank_b strip_a_cr_b strip_surrogate
      utf8_encodable_def is_surrogate_def)

subsection \<open>C4: saving a scan\<close>

text \<open>
  C4 at an id that is already taken. A first scan at clock 1000 ms creates
  \<^verbatim>\<open>1000.png\<close> and the empty \<^verbatim>\<open>1000.txt\<close>; the message "a" is appended to that
  description; a second scan whose clock reads 1000 ms again is saved under the same id.
  The image is replaced by the new bytes and the description is the last file again, but
  the description is not empty: \<^verbatim>\<open>touch()\<close> kept the text of the first pair.
\<close>

theorem C4_colliding_id_keeps_old_description:
  "descs (run (one_scan @ [PlainText 7 [97], CmdScan 7 True 0, WsFrame 1 (Binary [2]) 1000]))
     (des_path_of 1000) = Some [97, 10] \<and>
   images (run (one_scan @ [PlainText 7 [97], CmdScan 7 True 0, WsFrame 1 (Binary [2]) 1000]))
     (img_path_of 1000) = Some [2] \<and>
   last_file (run (one_scan @ [PlainText 7 [97], CmdScan 7 True 0, WsFrame 1 (Binary [2]) 1000]))
     = Some (des_path_of 1000)"
  by (simp add: run_defs strip_a utf8_encodable_def is_surrogate_def)

subsection \<open>C5: the echo of a description\<close>

text \<open>
  C5, as the code has it. When a text is appended to the last file (a last file is set,
  the stripped text is not empty and UTF-8 can encode it), the file afterwards holds
  everything: what it held, the appended text and a newline. The reply carries the name
  of the file and an echo; the echo is at most 4000 characters long and is a suffix of
  the text as \<^verbatim>\<open>read_text\<close> gives it, which is the stored content with every CR LF and
  every other CR read as LF. When the stored content holds no CR, the echo is a suffix of
  the stored content itself. What the echo leaves out is left out of the echo only.
\<close>

theorem C5_echo_is_bounded_suffix_of_text_read:
  assumes "last_file s = Some p" and "strip t \<noteq> []" and "utf8_encodable (strip t)"
  shows "descs (plain_text c t s) p = Some (doc_text s p @ strip t @ [10]) \<and>
         read_text p (descs (plain_text c t s)) =
           Some (universal_newlines (doc_text s p @ strip t @ [10])) \<and>
         outbox (plain_text c t s) =
           outbox s @ [ReplyText c (Updated (path_name p)
                         (echo_tail (universal_newlines (doc_text s p @ strip t @ [10]))))] \<and>
         length (echo_tail (universal_newlines (doc_text s p @ strip t @ [10]))) \<le> 4000 \<and>
         suffix (echo_tail (universal_newlines (doc_text s p @ strip t @ [10])))
                (universal_newlines (doc_text s p @ strip t @ [10])) \<and>
         (13 \<notin> set (doc_text s p) \<and> 13 \<notin> set (strip t) \<longrightarrow>
            suffix (echo_tail (universal_newlines (doc_text s p @ strip t @ [10])))
                   (doc_text s p @ strip t @ [10]))"
proof -
  have "suffix (echo_tail (universal_newlines (doc_text s p @ strip t @ [10])))
               (doc_text s p @ strip t @ [10])"
    if "13 \<notin> set (doc_text s p)" and "13 \<notin> set (strip t)"
  proof -
    have "universal_newlines (doc_text s p @ strip t @ [10]) = doc_text s p @ strip t @ [10]"
      using that by (simp add: universal_newlines_no_cr)
    then show ?thesis
      using echo_tail_suffix [of "doc_text s p @ strip t @ [10]"] by simp
  qed
  then show ?thesis
    using assms
    by (simp add: plain_text_append read_text_def echo_tail_length echo_tail_suffix)
qed

theorem C5_echo_is_bounded_suffix_of_text_read_witness:
  "last_file long_doc = Some (des_path_of 1000) \<and>
   strip [98] = [98] \<and> utf8_encodable [98] \<and>
   13 \<notin> set long_text \<and>
   length (long_text @ [98, 10]) = 5002 \<and>
   descs (plain_text 7 [98] long_doc) (des_path_of 1000) = Some (long_text @ [98, 10]) \<and>
   length (echo_tail (universal_newlines (long_text @ [98, 10]))) \<le> 4000 \<and>
   suffix (echo_tail (universal_newlines (long_text @ [98, 10]))) (long_text @ [98, 10])"
proof -
  have f: "last_file long_doc = Some (des_path_of 1000)"
    by (simp add: long_doc_def bot_init_def)
  have d: "doc_text long_doc (des_path_of 1000) = long_text"
    by (simp add: long_doc_def doc_text_def bot_init_def)
  have n: "strip [98] \<noteq> []"
    by (simp add: strip_b)
  have e: "utf8_encodable (strip [98])"
    by (simp add: strip_b utf8_encodable_b)
  have r: "13 \<notin> set long_text"
    by (simp add: long_text_def)
  have l: "length (long_text @ [98, 10]) = 5002"
    by (simp add: long_text_def)
  show ?thesis
    using C5_echo_is_bounded_suffix_of_text_read [OF f n e, of 7] f l r
    by (simp add: d strip_b utf8_encodable_b)
qed

text \<open>
  The claim as the specification words it fails on a description that holds a CR. After
  one scan, the message "a", CR, "b" is stored as it is, followed by a newline; the echo
  sent back has a newline in the place of the CR, and so is not a suffix of what is
  stored.
\<close>

theorem C5_echo_of_stored_cr_is_no_suffix:
  "descs (run (one_scan @ [PlainText 7 [97, 13, 98]])) (des_path_of 1000)
     = Some [97, 13, 98, 10] \<and>
   last (outbox (run (one_scan @ [PlainText 7 [97, 13, 98]])))
     = ReplyText 7 (Updated (path_name (des_path_of 1000)) [97, 10, 98, 10]) \<and>
   \<not> suffix [97, 10, 98, 10] [97, 13, 98, 10 :: codepoint]"
  by (simp add: run_defs strip_a_cr_b utf8_encodable_def is_surrogate_def echo_tail_def
      MAX_chars_def suffix_Cons)

subsection \<open>C6: a scan request that times out\<close>




subsection \<open>C7: a scan request without a device\<close>



subsection \<open>C8: notifying the subscribers\<close>



subsection \<open>C9: a second device connects\<close>

text \<open>
  C9. When a connection \<open>c2\<close> is made while the slot holds another connection \<open>c1\<close>,
  the slot holds \<open>c2\<close> and no longer \<open>c1\<close> from the first line of the handler on (the
  slot is one optional handle, so it never holds two). What is sent at that moment is
  the notification "scanner connected" to each subscriber whose send succeeds, and
  nothing else: no "scanner disconnected" is sent for \<open>c1\<close>, whose handler goes on
  running.
\<close>

theorem C9_second_connection_replaces_first:
  assumes "ws s = Some c1" and "c2 \<noteq> c1"
  shows "ws (ws_handler_connect c2 ok s) = Some c2 \<and>
         ws (ws_handler_connect c2 ok s) \<noteq> Some c1 \<and>
         handlers (ws_handler_connect c2 ok s) = handlers s @ [c2] \<and>
         outbox (ws_handler_connect c2 ok s) =
           outbox s @ map (\<lambda>cid. SendMessage cid ScannerConnected) (filter ok (subs s)) \<and>
         (\<forall>cid. SendMessage cid ScannerDisconnected
            \<notin> set (drop (length (outbox s)) (outbox (ws_handler_connect c2 ok s))))"
  using assms by (auto simp add: ws_handler_connect_def notify_all_eq)

theorem C9_second_connection_replaces_first_witness:
  "ws (run [CmdStart 7, WsConnect 1 all_ok]) = Some 1 \<and>
   ws (run [CmdStart 7, WsConnect 1 all_ok, WsConnect 2 all_ok]) = Some 2 \<and>
   handlers (run [CmdStart 7, WsConnect 1 all_ok, WsConnect 2 all_ok]) = [1, 2] \<and>
   outbox (run [CmdStart 7, WsConnect 1 all_ok, WsConnect 2 all_ok]) =
     [ReplyText 7 Greeting, SendMessage 7 ScannerConnected, SendMessage 7 ScannerConnected]"
  using C9_second_connection_replaces_first
          [of "run [CmdStart 7, WsConnect 1 all_ok]" 1 2 all_ok]
  by (simp add: run_defs)

subsection \<open>C10: the replaced connection closes\<close>

text \<open>
  C10. When the receive loop of any connection \<open>c\<close> ends, the handler empties the
  connection slot and sends "scanner disconnected" to each subscriber whose send
  succeeds, whatever the slot held. So when the slot held a newer connection \<open>c2\<close>
  whose handler is still running, that handler runs on, but \<^verbatim>\<open>_ws_send_scan\<close> now
  returns \<open>False\<close> and a scan request ends with "the scanner is not connected".
\<close>

theorem C10_close_of_replaced_connection_empties_slot:
  "ws (ws_handler_finally c ok s) = None \<and>
   outbox (ws_handler_finally c ok s) =
     outbox s @ map (\<lambda>cid. SendMessage cid ScannerDisconnected) (filter ok (subs s)) \<and>
   handlers (ws_handler_finally c ok s) = removeAll c (handlers s) \<and>
   (ws s = Some c2 \<and> c2 \<noteq> c \<and> c2 \<in> set (handlers s) \<longrightarrow>
      c2 \<in> set (handlers (ws_handler_finally c ok s)) \<and>
      fst (ws_send_scan send_ok (ws_handler_finally c ok s)) = False \<and>
      last (outbox (cmd_scan chat send_ok ts (ws_handler_finally c ok s))) =
        EditText chat (length (outbox (ws_handler_finally c ok s))) NotConnected)"
proof -
  have w: "ws (ws_handler_finally c ok s) = None"
    by (simp add: ws_handler_finally_def notify_all_eq)
  show ?thesis
    by (simp add: w cmd_scan_not_connected [OF w] ws_send_scan_def)
       (simp add: ws_handler_finally_def notify_all_eq)
qed

theorem C10_close_of_replaced_connection_empties_slot_witness:
  "ws (run [CmdStart 7, WsConnect 1 all_ok, WsConnect 2 all_ok]) = Some 2 \<and>
   2 \<in> set (handlers (run [CmdStart 7, WsConnect 1 all_ok, WsConnect 2 all_ok])) \<and>
   ws (run [CmdStart 7, WsConnect 1 all_ok, WsConnect 2 all_ok, WsClose 1 all_ok]) = None \<and>
   handlers (run [CmdStart 7, WsConnect 1 all_ok, WsConnect 2 all_ok, WsClose 1 all_ok]) = [2] \<and>
   fst (ws_send_scan True
         (run [CmdStart 7, WsConnect 1 all_ok, WsConnect 2 all_ok, WsClose 1 all_ok])) = False \<and>
   last (outbox (run [CmdStart 7, WsConnect 1 all_ok, WsConnect 2 all_ok, WsClose 1 all_ok])) =
     SendMessage 7 ScannerDisconnected"
  using C10_close_of_replaced_connection_empties_slot
          [of 1 all_ok "run [CmdStart 7, WsConnect 1 all_ok, WsConnect 2 all_ok]" 2 True 7 0]
  by (simp add: run_defs)

end
